theory Spec2Isabelle
  imports
    Complex_Main
    "HOL-Library.Multiset"
    "HOL-Library.AList"
    "HOL-Library.Char_ord"
    "HOL-Library.List_Lexorder"
    "HOL-Library.Product_Lexorder"
begin

section \<open>Strings\<close>

text \<open>
  A Python string is modelled as a \<^typ>\<open>string\<close>; one \<^typ>\<open>char\<close> stands for one code
  point below 256.  The predicates and case mappings below are Python's \<^verbatim>\<open>str.isspace\<close>,
  \<^verbatim>\<open>str.lower\<close> and \<^verbatim>\<open>str.upper\<close> on that range; \<^verbatim>\<open>upper_char\<close> is given on
  ASCII only, because the one place that uppercases (\<^verbatim>\<open>normalize_key\<close>) does so after
  every character outside \<^verbatim>\<open>[0-9A-Za-z]\<close> has been removed.
\<close>

definition is_space :: "char \<Rightarrow> bool" where
  "is_space c = (let n = (of_char c :: nat) in
     (9 \<le> n \<and> n \<le> 13) \<or> (28 \<le> n \<and> n \<le> 32) \<or> n = 133 \<or> n = 160)"

definition strip :: "string \<Rightarrow> string" where
  "strip s = rev (dropWhile is_space (rev (dropWhile is_space s)))"

definition lower_char :: "char \<Rightarrow> char" where
  "lower_char c = (let n = (of_char c :: nat) in
     if (65 \<le> n \<and> n \<le> 90) \<or> (192 \<le> n \<and> n \<le> 222 \<and> n \<noteq> 215)
     then char_of (n + 32) else c)"

definition lower :: "string \<Rightarrow> string" where
  "lower s = map lower_char s"

definition upper_char :: "char \<Rightarrow> char" where
  "upper_char c = (let n = (of_char c :: nat) in
     if 97 \<le> n \<and> n \<le> 122 then char_of (n - 32) else c)"

definition upper :: "string \<Rightarrow> string" where
  "upper s = map upper_char s"

text \<open>The characters the regular expression \<^verbatim>\<open>[^0-9A-Za-z]\<close> does not match.\<close>

definition is_alnum :: "char \<Rightarrow> bool" where
  "is_alnum c = (let n = (of_char c :: nat) in
     (48 \<le> n \<and> n \<le> 57) \<or> (65 \<le> n \<and> n \<le> 90) \<or> (97 \<le> n \<and> n \<le> 122))"


section \<open>Tables\<close>

text \<open>
  A spreadsheet cell holds text, a number, or nothing (pandas' NaN, \<^verbatim>\<open>pd.NA\<close>).  Amounts
  are exact rationals where the program computes with IEEE doubles.  A data frame is stored
  by column, as pandas does: a number of rows and the labelled columns in order.  The
  frames of interest are the ones pandas itself can hold and the scripts can process:
  every column has \<^verbatim>\<open>nrows\<close> cells and the labels are distinct (also after the scripts
  have stripped and lower-cased them).
\<close>

datatype cell = Text string | Number rat | NaN

record frame =
  nrows :: nat
  cols :: "(string \<times> cell list) list"

definition columns :: "frame \<Rightarrow> string list" where
  "columns df = map fst (cols df)"

definition rectangular :: "frame \<Rightarrow> bool" where
  "rectangular df = list_all (\<lambda>(name, vs). length vs = nrows df) (cols df)"

text \<open>
  \<^verbatim>\<open>df[name]\<close>.  Every use below comes after a test that the label is a column (or after
  the column has been assigned), so pandas' KeyError for a missing label is never reached;
  the model returns the empty column there.
\<close>

definition get_column :: "frame \<Rightarrow> string \<Rightarrow> cell list" where
  "get_column df name = (case map_of (cols df) name of Some vs \<Rightarrow> vs | None \<Rightarrow> [])"

text \<open>\<^verbatim>\<open>df[name] = values\<close>: overwrite the column in place, or append a new one.\<close>

definition set_column :: "frame \<Rightarrow> string \<Rightarrow> cell list \<Rightarrow> frame" where
  "set_column df name vs = df\<lparr>cols := AList.update name vs (cols df)\<rparr>"


definition strip_lower_columns :: "frame \<Rightarrow> frame" where
  "strip_lower_columns df = df\<lparr>cols := map (\<lambda>(name, vs). (lower (strip name), vs)) (cols df)\<rparr>"

text \<open>
  Two conversions are pandas' own and are taken as parameters wherever they are needed:
  \<^verbatim>\<open>repr_num\<close>, the text \<^verbatim>\<open>astype(str)\<close> gives a number, and \<^verbatim>\<open>parse_num\<close>, the number
  \<^verbatim>\<open>pd.to_numeric\<close> reads from a text cell (\<^verbatim>\<open>None\<close> when it reads none).
  \<^verbatim>\<open>astype(str)\<close> renders a missing cell as the text \<^verbatim>\<open>nan\<close>.
\<close>

definition astype_str :: "(rat \<Rightarrow> string) \<Rightarrow> cell \<Rightarrow> string" where
  "astype_str repr_num c = (case c of Text s \<Rightarrow> s | Number r \<Rightarrow> repr_num r | NaN \<Rightarrow> ''nan'')"

text \<open>\<^verbatim>\<open>pd.to_numeric(..., errors="coerce")\<close> on one cell, and \<^verbatim>\<open>.fillna(0)\<close> after it.\<close>

definition to_numeric :: "(string \<Rightarrow> rat option) \<Rightarrow> cell \<Rightarrow> rat option" where
  "to_numeric parse_num c = (case c of Number r \<Rightarrow> Some r | Text s \<Rightarrow> parse_num s | NaN \<Rightarrow> None)"

definition fillna0 :: "rat option \<Rightarrow> rat" where
  "fillna0 v = (case v of Some r \<Rightarrow> r | None \<Rightarrow> 0)"


section \<open>reconciliation.py: helpers\<close>

datatype error = KeyError | ValueError

definition bind :: "error + 'a \<Rightarrow> ('a \<Rightarrow> error + 'b) \<Rightarrow> error + 'b" where
  "bind r f = (case r of Inl e \<Rightarrow> Inl e | Inr x \<Rightarrow> f x)"

text \<open>
  The JSON configuration, typed: the entries whose values are strings, the optional list
  \<^verbatim>\<open>provider_cols\<close> and the optional number \<^verbatim>\<open>tolerance\<close>.
\<close>

record config =
  strs :: "string \<rightharpoonup> string"
  provider_cols :: "string list option"
  tolerance :: "rat option"

fun cfg :: "(string \<rightharpoonup> string) \<Rightarrow> string list \<Rightarrow> error + string" where
  "cfg conf [] = Inl KeyError"
| "cfg conf (k # ks) = (case conf k of Some v \<Rightarrow> Inr v | None \<Rightarrow> cfg conf ks)"

definition normalize :: "string \<Rightarrow> string" where
  "normalize s = upper (filter is_alnum (strip s))"

definition normalize_key :: "(rat \<Rightarrow> string) \<Rightarrow> cell list \<Rightarrow> cell list" where
  "normalize_key repr_num series = map (\<lambda>c. Text (normalize (astype_str repr_num c))) series"

definition safe_sum :: "rat option list option \<Rightarrow> rat" where
  "safe_sum series = (case series of
       None \<Rightarrow> 0
     | Some xs \<Rightarrow> sum_list (map fillna0 xs))"

fun ensure_provider_column :: "frame \<Rightarrow> string list \<Rightarrow> string \<Rightarrow> frame" where
  "ensure_provider_column df [] suffix =
     set_column df (''provider_'' @ suffix) (replicate (nrows df) NaN)"
| "ensure_provider_column df (col # candidates) suffix =
     (let candidate = lower col in
      if candidate \<in> set (columns df)
      then set_column df (''provider_'' @ suffix) (get_column df candidate)
      else ensure_provider_column df candidates suffix)"

text \<open>\<^verbatim>\<open>Series.replace(provider_map)\<close>: a cell equal to a key of the map takes its value.\<close>

definition replace_cell :: "(string \<rightharpoonup> string) \<Rightarrow> cell \<Rightarrow> cell" where
  "replace_cell provider_map c = (case c of
       Text s \<Rightarrow> (case provider_map s of Some v \<Rightarrow> Text v | None \<Rightarrow> Text s)
     | _ \<Rightarrow> c)"

definition combine_first :: "cell \<Rightarrow> cell \<Rightarrow> cell" where
  "combine_first a b = (if a = NaN then b else a)"

definition fillna :: "cell \<Rightarrow> cell \<Rightarrow> cell" where
  "fillna v c = (if c = NaN then v else c)"


section \<open>reconciliation.py: the join\<close>

text \<open>
  The rows of the two prepared frames, with the columns the rest of the run reads:
  \<^verbatim>\<open>key\<close>, the provider column and the amount.  All other columns are carried through
  the merge untouched and are left out.
\<close>

record order_row =
  okey :: string
  oprovider :: cell
  oexpected :: rat

record commission_row =
  ckey :: string
  cprovider :: cell
  cbilled :: rat

definition text_of :: "cell \<Rightarrow> string" where
  "text_of c = (case c of Text s \<Rightarrow> s | _ \<Rightarrow> [])"

definition number_of :: "cell \<Rightarrow> rat" where
  "number_of c = (case c of Number r \<Rightarrow> r | _ \<Rightarrow> 0)"

definition order_rows :: "frame \<Rightarrow> order_row list" where
  "order_rows df =
     map (\<lambda>(k, p, e). \<lparr>okey = text_of k, oprovider = p, oexpected = number_of e\<rparr>)
       (zip (get_column df ''key'')
         (zip (get_column df ''provider_orders'') (get_column df ''ExpectedCommissionUSD'')))"

definition commission_rows :: "frame \<Rightarrow> commission_row list" where
  "commission_rows df =
     map (\<lambda>(k, p, b). \<lparr>ckey = text_of k, cprovider = p, cbilled = number_of b\<rparr>)
       (zip (get_column df ''key'')
         (zip (get_column df ''provider_commissions'') (get_column df ''BilledCommissionUSD'')))"

text \<open>The \<^verbatim>\<open>_merge\<close> indicator: \<^verbatim>\<open>both\<close>, \<^verbatim>\<open>left_only\<close>, \<^verbatim>\<open>right_only\<close>.\<close>

datatype presence = Both | Left_only | Right_only

text \<open>A row of \<^verbatim>\<open>orders_df.merge(commissions_df, on="key", how="outer", indicator=True)\<close>:
  the cells of the side that has no row are missing.\<close>

record merged_row =
  m_key :: string
  m_expected :: "rat option"
  m_billed :: "rat option"
  m_provider_orders :: cell
  m_provider_commissions :: cell
  m_merge :: presence

definition both_row :: "order_row \<Rightarrow> commission_row \<Rightarrow> merged_row" where
  "both_row ord com = \<lparr>m_key = okey ord, m_expected = Some (oexpected ord),
     m_billed = Some (cbilled com), m_provider_orders = oprovider ord,
     m_provider_commissions = cprovider com, m_merge = Both\<rparr>"

definition left_row :: "order_row \<Rightarrow> merged_row" where
  "left_row ord = \<lparr>m_key = okey ord, m_expected = Some (oexpected ord),
     m_billed = None, m_provider_orders = oprovider ord,
     m_provider_commissions = NaN, m_merge = Left_only\<rparr>"

definition right_row :: "commission_row \<Rightarrow> merged_row" where
  "right_row com = \<lparr>m_key = ckey com, m_expected = None,
     m_billed = Some (cbilled com), m_provider_orders = NaN,
     m_provider_commissions = cprovider com, m_merge = Right_only\<rparr>"

text \<open>
  The outer merge.  Every order row is paired with every commission row of the same key,
  in the order of the commission rows; an order row with no partner is kept alone, and so
  is a commission row with no partner.  pandas returns the rows of an outer merge sorted
  by key, rows of one key staying in the order just described.
\<close>

definition pair_order :: "commission_row list \<Rightarrow> order_row \<Rightarrow> merged_row list" where
  "pair_order commissions ord = (case filter (\<lambda>com. ckey com = okey ord) commissions of
       [] \<Rightarrow> [left_row ord]
     | partners \<Rightarrow> map (both_row ord) partners)"

definition unmatched_commissions :: "order_row list \<Rightarrow> commission_row list \<Rightarrow> commission_row list" where
  "unmatched_commissions orders commissions =
     filter (\<lambda>com. ckey com \<notin> set (map okey orders)) commissions"

definition merge_outer :: "order_row list \<Rightarrow> commission_row list \<Rightarrow> merged_row list" where
  "merge_outer orders commissions =
     sort_key m_key
       (concat (map (pair_order commissions) orders)
        @ map right_row (unmatched_commissions orders commissions))"

text \<open>The joined record: the merged row after lines 128 to 135 of \<^verbatim>\<open>main\<close>.\<close>

record joined =
  key :: string
  ExpectedCommissionUSD :: rat
  BilledCommissionUSD :: rat
  CommissionGapUSD :: rat
  provider_orders :: cell
  provider_commissions :: cell
  Provider :: cell
  merge_ind :: presence

definition fill_row :: "merged_row \<Rightarrow> joined" where
  "fill_row m =
     (let expected = fillna0 (m_expected m);
          billed = fillna0 (m_billed m)
      in \<lparr>key = m_key m,
          ExpectedCommissionUSD = expected,
          BilledCommissionUSD = billed,
          CommissionGapUSD = expected - billed,
          provider_orders = m_provider_orders m,
          provider_commissions = m_provider_commissions m,
          Provider = fillna (Text ''Unassigned'')
            (combine_first (m_provider_orders m) (m_provider_commissions m)),
          merge_ind = m_merge m\<rparr>)"

definition joined_records :: "order_row list \<Rightarrow> commission_row list \<Rightarrow> joined list" where
  "joined_records orders commissions = map fill_row (merge_outer orders commissions)"


section \<open>reconciliation.py: partitions and summary\<close>

definition matches_of :: "joined list \<Rightarrow> joined list" where
  "matches_of merged = filter (\<lambda>r. merge_ind r = Both) merged"

definition orders_only_of :: "joined list \<Rightarrow> joined list" where
  "orders_only_of merged = filter (\<lambda>r. merge_ind r = Left_only) merged"

definition commissions_only_of :: "joined list \<Rightarrow> joined list" where
  "commissions_only_of merged = filter (\<lambda>r. merge_ind r = Right_only) merged"

definition gaps_of :: "rat \<Rightarrow> joined list \<Rightarrow> joined list" where
  "gaps_of tol matches = filter (\<lambda>r. \<bar>CommissionGapUSD r\<bar> > tol) matches"

record summary_row =
  s_Category :: string
  s_Records :: nat
  s_ExpectedCommissionUSD :: rat
  s_BilledCommissionUSD :: rat
  s_CommissionGapUSD :: rat

definition col_sum :: "(joined \<Rightarrow> rat) \<Rightarrow> joined list \<Rightarrow> rat" where
  "col_sum f part = safe_sum (Some (map (\<lambda>r. Some (f r)) part))"

definition summary_of ::
  "joined list \<Rightarrow> joined list \<Rightarrow> joined list \<Rightarrow> joined list \<Rightarrow> summary_row list" where
  "summary_of matches gaps orders_only commissions_only =
     [\<lparr>s_Category = ''Perfect Match'', s_Records = length matches,
        s_ExpectedCommissionUSD = col_sum ExpectedCommissionUSD matches,
        s_BilledCommissionUSD = col_sum BilledCommissionUSD matches,
        s_CommissionGapUSD = col_sum CommissionGapUSD matches\<rparr>,
      \<lparr>s_Category = ''Commission Gap'', s_Records = length gaps,
        s_ExpectedCommissionUSD = col_sum ExpectedCommissionUSD gaps,
        s_BilledCommissionUSD = col_sum BilledCommissionUSD gaps,
        s_CommissionGapUSD = col_sum CommissionGapUSD gaps\<rparr>,
      \<lparr>s_Category = ''Orders Missing Commission'', s_Records = length orders_only,
        s_ExpectedCommissionUSD = col_sum ExpectedCommissionUSD orders_only,
        s_BilledCommissionUSD = 0,
        s_CommissionGapUSD = col_sum CommissionGapUSD orders_only\<rparr>,
      \<lparr>s_Category = ''Commission Missing Order'', s_Records = length commissions_only,
        s_ExpectedCommissionUSD = 0,
        s_BilledCommissionUSD = col_sum BilledCommissionUSD commissions_only,
        s_CommissionGapUSD = col_sum CommissionGapUSD commissions_only\<rparr>]"

text \<open>
  What a run writes: the four partition sheets and the summary sheet.  The provider
  breakdown sheet is a regrouping of the same four partitions and is left out.
\<close>

record run_output =
  matches :: "joined list"
  gaps :: "joined list"
  orders_only :: "joined list"
  commissions_only :: "joined list"
  summary :: "summary_row list"

text \<open>Lines 120 to 171 of \<^verbatim>\<open>main\<close>, from the prepared rows and the tolerance.\<close>

definition reconcile :: "order_row list \<Rightarrow> commission_row list \<Rightarrow> rat \<Rightarrow> run_output" where
  "reconcile orders commissions tol =
     (let merged = joined_records orders commissions;
          ms = matches_of merged;
          oo = orders_only_of merged;
          co = commissions_only_of merged;
          gs = gaps_of tol ms
      in \<lparr>matches = ms, gaps = gs, orders_only = oo, commissions_only = co,
          summary = summary_of ms gs oo co\<rparr>)"


section \<open>reconciliation.py: main\<close>

text \<open>
  The workbook is the list of its sheets, by name.  \<^verbatim>\<open>sheets\<close> is the dictionary from
  lower-cased sheet names to sheet names (a later sheet wins); \<^verbatim>\<open>parse\<close> reads a sheet
  whose name was taken from that dictionary.
\<close>

type_synonym workbook = "(string \<times> frame) list"

definition sheets_of :: "workbook \<Rightarrow> string \<rightharpoonup> string" where
  "sheets_of wb = map_of (rev (map (\<lambda>name. (lower name, name)) (map fst wb)))"

definition parse :: "workbook \<Rightarrow> string \<Rightarrow> frame" where
  "parse wb name = (case map_of wb name of Some df \<Rightarrow> df | None \<Rightarrow> \<lparr>nrows = 0, cols = []\<rparr>)"

definition missing_columns :: "frame \<Rightarrow> string list \<Rightarrow> string list" where
  "missing_columns df required = filter (\<lambda>col. col \<notin> set (columns df)) required"

text \<open>Lines 105 to 118 for one of the two frames.\<close>

definition prepare_frame ::
  "(rat \<Rightarrow> string) \<Rightarrow> (string \<Rightarrow> rat option) \<Rightarrow> (string \<rightharpoonup> string) \<Rightarrow> string list
    \<Rightarrow> string \<Rightarrow> string \<Rightarrow> string \<Rightarrow> string \<Rightarrow> frame \<Rightarrow> frame" where
  "prepare_frame repr_num parse_num provider_map cands suffix key_col amount_col amount_name df0 =
     (let pcol = ''provider_'' @ suffix;
          df1 = ensure_provider_column df0 cands suffix;
          df2 = set_column df1 pcol (map (replace_cell provider_map) (get_column df1 pcol));
          df3 = set_column df2 ''key'' (normalize_key repr_num (get_column df2 key_col));
          df4 = set_column df3 amount_name
                  (map (\<lambda>c. Number (fillna0 (to_numeric parse_num c))) (get_column df3 amount_col))
      in df4)"

text \<open>Lines 72 to 118: everything up to the merge.\<close>

definition prepare ::
  "(rat \<Rightarrow> string) \<Rightarrow> (string \<Rightarrow> rat option) \<Rightarrow> config \<Rightarrow> workbook \<Rightarrow> (string \<rightharpoonup> string)
    \<Rightarrow> error + (order_row list \<times> commission_row list)" where
  "prepare repr_num parse_num conf wb provider_map =
     bind (cfg (strs conf) [''input_file'']) (\<lambda>input_file.
     bind (cfg (strs conf) [''orders_sheet'', ''odv_sheet'']) (\<lambda>os.
     bind (cfg (strs conf) [''commissions_sheet'', ''com_sheet'']) (\<lambda>cs.
     case (sheets_of wb (lower os), sheets_of wb (lower cs)) of
       (Some orders_name, Some commissions_name) \<Rightarrow>
         (let orders_df = strip_lower_columns (parse wb orders_name);
              commissions_df = strip_lower_columns (parse wb commissions_name)
          in
          bind (cfg (strs conf) [''orders_key'', ''odv_key'']) (\<lambda>ok.
          bind (cfg (strs conf) [''commissions_key'', ''com_key'']) (\<lambda>ck.
          bind (cfg (strs conf) [''orders_commission_col'', ''odv_commission_col'']) (\<lambda>oc.
          bind (cfg (strs conf) [''commissions_commission_col'', ''com_commission_col'']) (\<lambda>cc.
          let orders_key = lower (strip ok);
              commissions_key = lower (strip ck);
              orders_commission = lower (strip oc);
              commissions_commission = lower (strip cc)
          in
          if missing_columns orders_df [orders_key, orders_commission] \<noteq> [] then Inl ValueError
          else if missing_columns commissions_df [commissions_key, commissions_commission] \<noteq> []
          then Inl ValueError
          else
            (let cands = map lower (case provider_cols conf of
                     Some pcs \<Rightarrow> pcs
                   | None \<Rightarrow> [''provider'', ''supplier'', ''operator''])
             in Inr
               (order_rows (prepare_frame repr_num parse_num provider_map cands ''orders''
                  orders_key orders_commission ''ExpectedCommissionUSD'' orders_df),
                commission_rows (prepare_frame repr_num parse_num provider_map cands
                  ''commissions'' commissions_key commissions_commission
                  ''BilledCommissionUSD'' commissions_df))))))))
     | _ \<Rightarrow> Inl ValueError)))"

definition default_tolerance :: rat where
  "default_tolerance = 1 / 4"

definition main ::
  "(rat \<Rightarrow> string) \<Rightarrow> (string \<Rightarrow> rat option) \<Rightarrow> config \<Rightarrow> workbook \<Rightarrow> (string \<rightharpoonup> string)
    \<Rightarrow> error + run_output" where
  "main repr_num parse_num conf wb provider_map =
     bind (prepare repr_num parse_num conf wb provider_map) (\<lambda>(orders, commissions).
     let tol = (case tolerance conf of Some t \<Rightarrow> t | None \<Rightarrow> default_tolerance);
         out = reconcile orders commissions tol
     in bind (cfg (strs conf) [''output_file'']) (\<lambda>output_file. Inr out))"


section \<open>combine_commissions.py\<close>











section \<open>Sample inputs\<close>

text \<open>
  A configuration with every required entry and no \<^verbatim>\<open>provider_cols\<close>, its tolerance left
  open, and two workbooks for it.  In the first the order row has no value under
  \<^verbatim>\<open>Provider\<close> and the value Acme under \<^verbatim>\<open>Supplier\<close>, and order and commission agree
  on the amount.  In the second neither the order row nor the commission row has a locator.
\<close>

definition sample_config :: "rat option \<Rightarrow> config" where
  "sample_config tol =
     \<lparr>strs = map_of
        [(''input_file'', ''book.xlsx''), (''output_file'', ''out.xlsx''),
         (''orders_sheet'', ''Orders''), (''commissions_sheet'', ''Commissions''),
         (''orders_key'', ''Locator''), (''commissions_key'', ''Locator''),
         (''orders_commission_col'', ''Expected''),
         (''commissions_commission_col'', ''Billed'')],
      provider_cols = None,
      tolerance = tol\<rparr>"

definition sample_workbook :: workbook where
  "sample_workbook =
     [(''Orders'',
        \<lparr>nrows = 1,
         cols = [(''Locator '', [Text ''abc-123'']), (''Expected'', [Number 100]),
                 (''Provider'', [NaN]), (''Supplier'', [Text ''Acme''])]\<rparr>),
      (''Commissions'',
        \<lparr>nrows = 1,
         cols = [(''LOCATOR'', [Text ''ABC123'']), (''Billed'', [Number 100])]\<rparr>)]"

definition missing_locator_workbook :: workbook where
  "missing_locator_workbook =
     [(''Orders'',
        \<lparr>nrows = 1, cols = [(''Locator'', [NaN]), (''Expected'', [Number 40])]\<rparr>),
      (''Commissions'',
        \<lparr>nrows = 1, cols = [(''Locator'', [NaN]), (''Billed'', [Number 15])]\<rparr>)]"



text \<open>The two conversions of pandas are not exercised by the sample inputs.\<close>

definition no_repr :: "rat \<Rightarrow> string" where
  "no_repr r = []"

definition no_parse :: "string \<Rightarrow> rat option" where
  "no_parse s = None"


section \<open>Key normalization\<close>


lemma is_alnum_upper_char [simp]: "is_alnum (upper_char c) = is_alnum c"
  by (auto simp add: is_alnum_def upper_char_def Let_def)

lemma upper_char_idem [simp]: "upper_char (upper_char c) = upper_char c"
  by (auto simp add: upper_char_def Let_def)

lemma is_alnum_lower_char [simp]: "is_alnum (lower_char c) = is_alnum c"
proof -
  have "(of_char c :: nat) < 256" by simp
  then show ?thesis
    by (auto simp add: is_alnum_def lower_char_def Let_def)
qed












section \<open>The partitions of a run\<close>

lemma reconcile_sel:
  "matches (reconcile os cs tol) = matches_of (joined_records os cs)"
  "orders_only (reconcile os cs tol) = orders_only_of (joined_records os cs)"
  "commissions_only (reconcile os cs tol) = commissions_only_of (joined_records os cs)"
  "gaps (reconcile os cs tol) = gaps_of tol (matches_of (joined_records os cs))"
  "summary (reconcile os cs tol) =
     summary_of (matches_of (joined_records os cs))
       (gaps_of tol (matches_of (joined_records os cs)))
       (orders_only_of (joined_records os cs)) (commissions_only_of (joined_records os cs))"
  by (simp_all add: reconcile_def Let_def)

lemma presence_split:
  "mset (matches_of xs) + mset (orders_only_of xs) + mset (commissions_only_of xs) = mset xs"
proof (induction xs)
  case Nil
  show ?case by (simp add: matches_of_def orders_only_of_def commissions_only_of_def)
next
  case (Cons x xs)
  then show ?case
    by (cases "merge_ind x")
      (simp_all add: matches_of_def orders_only_of_def commissions_only_of_def)
qed

lemma presence_disjoint:
  "set (matches_of xs) \<inter> set (orders_only_of xs) = {}"
  "set (matches_of xs) \<inter> set (commissions_only_of xs) = {}"
  "set (orders_only_of xs) \<inter> set (commissions_only_of xs) = {}"
  by (auto simp add: matches_of_def orders_only_of_def commissions_only_of_def)

text \<open>
  Claim C1, as the program has it.  The sheets \<^verbatim>\<open>matches\<close> (every joined record present
  on both sides, the records counted in the Perfect Match row),
  \<^verbatim>\<open>orders_missing_commission\<close> and \<^verbatim>\<open>commissions_missing_orders\<close> are pairwise
  disjoint and together hold every joined record exactly once.  The sheet
  \<^verbatim>\<open>commission_gap\<close> is no fourth part: it is cut out of \<^verbatim>\<open>matches\<close>, the records whose
  gap exceeds the tolerance in absolute value, and each of its records is in
  \<^verbatim>\<open>matches\<close> as well.
\<close>

theorem presence_partitions:
  "mset (matches (reconcile os cs tol)) + mset (orders_only (reconcile os cs tol))
      + mset (commissions_only (reconcile os cs tol)) = mset (joined_records os cs)
   \<and> set (matches (reconcile os cs tol)) \<inter> set (orders_only (reconcile os cs tol)) = {}
   \<and> set (matches (reconcile os cs tol)) \<inter> set (commissions_only (reconcile os cs tol)) = {}
   \<and> set (orders_only (reconcile os cs tol)) \<inter> set (commissions_only (reconcile os cs tol)) = {}
   \<and> gaps (reconcile os cs tol)
        = filter (\<lambda>r. \<bar>CommissionGapUSD r\<bar> > tol) (matches (reconcile os cs tol))
   \<and> set (gaps (reconcile os cs tol)) \<subseteq> set (matches (reconcile os cs tol))"
  by (simp add: reconcile_sel presence_split presence_disjoint) (simp add: gaps_of_def)

theorem presence_partitions_witness:
  "mset (matches (reconcile [\<lparr>okey = ''K'', oprovider = NaN, oexpected = 100\<rparr>]
       [\<lparr>ckey = ''K'', cprovider = NaN, cbilled = 50\<rparr>] (1 / 4)))
     + mset (orders_only (reconcile [\<lparr>okey = ''K'', oprovider = NaN, oexpected = 100\<rparr>]
       [\<lparr>ckey = ''K'', cprovider = NaN, cbilled = 50\<rparr>] (1 / 4)))
     + mset (commissions_only (reconcile [\<lparr>okey = ''K'', oprovider = NaN, oexpected = 100\<rparr>]
       [\<lparr>ckey = ''K'', cprovider = NaN, cbilled = 50\<rparr>] (1 / 4)))
   = mset (joined_records [\<lparr>okey = ''K'', oprovider = NaN, oexpected = 100\<rparr>]
       [\<lparr>ckey = ''K'', cprovider = NaN, cbilled = 50\<rparr>])"
  using presence_partitions [of "[\<lparr>okey = ''K'', oprovider = NaN, oexpected = 100\<rparr>]"
      "[\<lparr>ckey = ''K'', cprovider = NaN, cbilled = 50\<rparr>]" "1 / 4"]
  by simp

text \<open>
  One order of 100 and one commission of 50 under the same key, tolerance 0.25: the single
  joined record is on the sheet \<^verbatim>\<open>matches\<close> and on the sheet \<^verbatim>\<open>commission_gap\<close>.
\<close>

theorem partitions_overlap_counterexample:
  "matches (reconcile [\<lparr>okey = ''K'', oprovider = NaN, oexpected = 100\<rparr>]
        [\<lparr>ckey = ''K'', cprovider = NaN, cbilled = 50\<rparr>] (1 / 4))
     = [\<lparr>key = ''K'', ExpectedCommissionUSD = 100, BilledCommissionUSD = 50,
         CommissionGapUSD = 50, provider_orders = NaN, provider_commissions = NaN,
         Provider = Text ''Unassigned'', merge_ind = Both\<rparr>]
   \<and> gaps (reconcile [\<lparr>okey = ''K'', oprovider = NaN, oexpected = 100\<rparr>]
        [\<lparr>ckey = ''K'', cprovider = NaN, cbilled = 50\<rparr>] (1 / 4))
     = [\<lparr>key = ''K'', ExpectedCommissionUSD = 100, BilledCommissionUSD = 50,
         CommissionGapUSD = 50, provider_orders = NaN, provider_commissions = NaN,
         Provider = Text ''Unassigned'', merge_ind = Both\<rparr>]"
  by code_simp





section \<open>The summary\<close>

text \<open>
  Claim C8.  Whatever the input, the summary has exactly four rows, in the order Perfect
  Match, Commission Gap, Orders Missing Commission, Commission Missing Order; each row
  counts the records of its sheet, and a row that counts no record has all three sums 0.
\<close>

theorem summary_rows_fixed:
  "length (summary (reconcile os cs tol)) = 4
   \<and> map s_Category (summary (reconcile os cs tol))
     = [''Perfect Match'', ''Commission Gap'', ''Orders Missing Commission'',
        ''Commission Missing Order'']
   \<and> map s_Records (summary (reconcile os cs tol))
     = [length (matches (reconcile os cs tol)), length (gaps (reconcile os cs tol)),
        length (orders_only (reconcile os cs tol)),
        length (commissions_only (reconcile os cs tol))]
   \<and> (\<forall>row \<in> set (summary (reconcile os cs tol)). s_Records row = 0 \<longrightarrow>
         s_ExpectedCommissionUSD row = 0 \<and> s_BilledCommissionUSD row = 0
         \<and> s_CommissionGapUSD row = 0)"
  by (simp add: reconcile_sel summary_of_def col_sum_def safe_sum_def)

lemma summary_orders_only_example:
  "summary (reconcile [\<lparr>okey = ''XYZ1'', oprovider = NaN, oexpected = 50\<rparr>] [] (1 / 4))
     = [\<lparr>s_Category = ''Perfect Match'', s_Records = 0, s_ExpectedCommissionUSD = 0,
          s_BilledCommissionUSD = 0, s_CommissionGapUSD = 0\<rparr>,
        \<lparr>s_Category = ''Commission Gap'', s_Records = 0, s_ExpectedCommissionUSD = 0,
          s_BilledCommissionUSD = 0, s_CommissionGapUSD = 0\<rparr>,
        \<lparr>s_Category = ''Orders Missing Commission'', s_Records = 1,
          s_ExpectedCommissionUSD = 50, s_BilledCommissionUSD = 0, s_CommissionGapUSD = 50\<rparr>,
        \<lparr>s_Category = ''Commission Missing Order'', s_Records = 0,
          s_ExpectedCommissionUSD = 0, s_BilledCommissionUSD = 0, s_CommissionGapUSD = 0\<rparr>]"
  by code_simp

theorem summary_rows_fixed_witness:
  "map s_Category (summary (reconcile
       [\<lparr>okey = ''XYZ1'', oprovider = NaN, oexpected = 50\<rparr>] [] (1 / 4)))
     = [''Perfect Match'', ''Commission Gap'', ''Orders Missing Commission'',
        ''Commission Missing Order'']
   \<and> map s_Records (summary (reconcile
       [\<lparr>okey = ''XYZ1'', oprovider = NaN, oexpected = 50\<rparr>] [] (1 / 4))) = [0, 0, 1, 0]
   \<and> map s_ExpectedCommissionUSD (summary (reconcile
       [\<lparr>okey = ''XYZ1'', oprovider = NaN, oexpected = 50\<rparr>] [] (1 / 4))) = [0, 0, 50, 0]"
  using summary_rows_fixed [of "[\<lparr>okey = ''XYZ1'', oprovider = NaN, oexpected = 50\<rparr>]" "[]" "1 / 4"]
  by (simp add: summary_orders_only_example)


section \<open>The outer join\<close>

lemma pair_order_mset:
  "mset (pair_order cs ord)
     = mset (map (both_row ord) (filter (\<lambda>com. ckey com = okey ord) cs))
       + mset (map left_row (filter (\<lambda>x. okey x \<notin> set (map ckey cs)) [ord]))"
proof (cases "filter (\<lambda>com. ckey com = okey ord) cs")
  case Nil
  then have "okey ord \<notin> set (map ckey cs)"
    by (auto simp add: filter_empty_conv)
  with Nil show ?thesis by (simp add: pair_order_def)
next
  case (Cons p ps)
  then have "p \<in> set (filter (\<lambda>com. ckey com = okey ord) cs)" by simp
  then have "okey ord \<in> set (map ckey cs)" by force
  with Cons show ?thesis by (simp add: pair_order_def)
qed

lemma pairs_mset:
  "mset (concat (map (pair_order cs) os))
     = mset (map (\<lambda>(ord, com). both_row ord com)
         (filter (\<lambda>(ord, com). ckey com = okey ord) (List.product os cs)))
       + mset (map left_row (filter (\<lambda>ord. okey ord \<notin> set (map ckey cs)) os))"
proof (induction os)
  case Nil
  show ?case by simp
next
  case (Cons ord os)
  have "filter (\<lambda>(ord, com). ckey com = okey ord) (map (Pair ord) cs)
      = map (Pair ord) (filter (\<lambda>com. ckey com = okey ord) cs)"
    by (simp add: filter_map comp_def)
  then have "mset (map (\<lambda>(ord, com). both_row ord com)
         (filter (\<lambda>(ord, com). ckey com = okey ord) (List.product (ord # os) cs)))
     = mset (map (both_row ord) (filter (\<lambda>com. ckey com = okey ord) cs))
       + mset (map (\<lambda>(ord, com). both_row ord com)
         (filter (\<lambda>(ord, com). ckey com = okey ord) (List.product os cs)))"
    by (simp add: comp_def)
  with Cons show ?case
    by (simp add: pair_order_mset)
qed

lemma merge_outer_mset:
  "mset (merge_outer os cs)
     = mset (map (\<lambda>(ord, com). both_row ord com)
         (filter (\<lambda>(ord, com). ckey com = okey ord) (List.product os cs)))
       + mset (map left_row (filter (\<lambda>ord. okey ord \<notin> set (map ckey cs)) os))
       + mset (map right_row (filter (\<lambda>com. ckey com \<notin> set (map okey os)) cs))"
  by (simp add: merge_outer_def unmatched_commissions_def pairs_mset)

lemma fill_row_simps:
  "fill_row (both_row ord com) = \<lparr>key = okey ord, ExpectedCommissionUSD = oexpected ord,
     BilledCommissionUSD = cbilled com, CommissionGapUSD = oexpected ord - cbilled com,
     provider_orders = oprovider ord, provider_commissions = cprovider com,
     Provider = fillna (Text ''Unassigned'') (combine_first (oprovider ord) (cprovider com)),
     merge_ind = Both\<rparr>"
  "fill_row (left_row ord) = \<lparr>key = okey ord, ExpectedCommissionUSD = oexpected ord,
     BilledCommissionUSD = 0, CommissionGapUSD = oexpected ord,
     provider_orders = oprovider ord, provider_commissions = NaN,
     Provider = fillna (Text ''Unassigned'') (oprovider ord),
     merge_ind = Left_only\<rparr>"
  "fill_row (right_row com) = \<lparr>key = ckey com, ExpectedCommissionUSD = 0,
     BilledCommissionUSD = cbilled com, CommissionGapUSD = - cbilled com,
     provider_orders = NaN, provider_commissions = cprovider com,
     Provider = fillna (Text ''Unassigned'') (cprovider com),
     merge_ind = Right_only\<rparr>"
  by (simp_all add: fill_row_def Let_def both_row_def left_row_def right_row_def fillna0_def
      combine_first_def fillna_def)

lemma joined_records_mset:
  "mset (joined_records os cs)
     = mset (map (\<lambda>(ord, com). fill_row (both_row ord com))
         (filter (\<lambda>(ord, com). ckey com = okey ord) (List.product os cs)))
       + mset (map (\<lambda>ord. fill_row (left_row ord))
           (filter (\<lambda>ord. okey ord \<notin> set (map ckey cs)) os))
       + mset (map (\<lambda>com. fill_row (right_row com))
           (filter (\<lambda>com. ckey com \<notin> set (map okey os)) cs))"
  unfolding joined_records_def mset_map merge_outer_mset
  by (simp add: multiset.map_comp comp_def case_prod_unfold)

lemma duplicate_key_example:
  "map (\<lambda>r. (merge_ind r, CommissionGapUSD r))
        (joined_records [\<lparr>okey = ''K'', oprovider = NaN, oexpected = 10\<rparr>,
                         \<lparr>okey = ''K'', oprovider = NaN, oexpected = 20\<rparr>]
                        [\<lparr>ckey = ''K'', cprovider = NaN, cbilled = 5\<rparr>])
      = [(Both, 5), (Both, 15)]"
  by code_simp

text \<open>
  Claim C4.  The joined records are those of a full outer join on the key with a cross
  product on duplicates: one record, present on both sides, for every pair of an order row
  and a commission row with the same key; one record per order row whose key no commission
  row has, with billed commission 0, presence \<^verbatim>\<open>left_only\<close> and gap equal to the expected
  commission; one record per commission row whose key no order row has, with expected
  commission 0 and presence \<^verbatim>\<open>right_only\<close>.  Two orders with key K (expected 10 and 20)
  and one commission with key K (billed 5) give exactly two joined records, with gaps 5
  and 15.
\<close>

theorem outer_join_cross_product:
  "mset (joined_records os cs)
     = mset (map (\<lambda>(ord, com). fill_row (both_row ord com))
         (filter (\<lambda>(ord, com). ckey com = okey ord) (List.product os cs)))
       + mset (map (\<lambda>ord. fill_row (left_row ord))
           (filter (\<lambda>ord. okey ord \<notin> set (map ckey cs)) os))
       + mset (map (\<lambda>com. fill_row (right_row com))
           (filter (\<lambda>com. ckey com \<notin> set (map okey os)) cs))
   \<and> merge_ind (fill_row (both_row ord com)) = Both
   \<and> key (fill_row (both_row ord com)) = okey ord
   \<and> ExpectedCommissionUSD (fill_row (both_row ord com)) = oexpected ord
   \<and> BilledCommissionUSD (fill_row (both_row ord com)) = cbilled com
   \<and> CommissionGapUSD (fill_row (both_row ord com)) = oexpected ord - cbilled com
   \<and> merge_ind (fill_row (left_row ord)) = Left_only
   \<and> key (fill_row (left_row ord)) = okey ord
   \<and> ExpectedCommissionUSD (fill_row (left_row ord)) = oexpected ord
   \<and> BilledCommissionUSD (fill_row (left_row ord)) = 0
   \<and> CommissionGapUSD (fill_row (left_row ord)) = oexpected ord
   \<and> merge_ind (fill_row (right_row com)) = Right_only
   \<and> key (fill_row (right_row com)) = ckey com
   \<and> ExpectedCommissionUSD (fill_row (right_row com)) = 0
   \<and> BilledCommissionUSD (fill_row (right_row com)) = cbilled com
   \<and> CommissionGapUSD (fill_row (right_row com)) = - cbilled com
   \<and> map (\<lambda>r. (merge_ind r, CommissionGapUSD r))
        (joined_records [\<lparr>okey = ''K'', oprovider = NaN, oexpected = 10\<rparr>,
                         \<lparr>okey = ''K'', oprovider = NaN, oexpected = 20\<rparr>]
                        [\<lparr>ckey = ''K'', cprovider = NaN, cbilled = 5\<rparr>])
      = [(Both, 5), (Both, 15)]"
  using joined_records_mset [of os cs] duplicate_key_example
  by (simp add: fill_row_simps)

section \<open>Conservation of the expected commission\<close>













section \<open>Frames and the provider column\<close>

lemma get_set_same [simp]: "get_column (set_column df name vs) name = vs"
  by (simp add: get_column_def set_column_def update_conv')

lemma get_set_other [simp]:
  "name' \<noteq> name \<Longrightarrow> get_column (set_column df name vs) name' = get_column df name'"
  by (simp add: get_column_def set_column_def update_conv')

lemma nrows_set_column [simp]: "nrows (set_column df name vs) = nrows df"
  by (simp add: set_column_def)

lemma columns_set_column:
  "set (columns (set_column df name vs)) = insert name (set (columns df))"
  by (simp add: columns_def set_column_def AList.dom_update)

lemma rectangular_get:
  "rectangular df \<Longrightarrow> name \<in> set (columns df) \<Longrightarrow> length (get_column df name) = nrows df"
proof -
  assume r: "rectangular df" and n: "name \<in> set (columns df)"
  from n obtain vs where vs: "map_of (cols df) name = Some vs"
    by (metis columns_def domD dom_map_of_conv_image_fst set_map)
  then have "(name, vs) \<in> set (cols df)" by (rule map_of_SomeD)
  with r have "length vs = nrows df"
    by (auto simp add: rectangular_def list_all_iff)
  with vs show ?thesis by (simp add: get_column_def)
qed

lemma rectangular_update:
  "list_all (\<lambda>(name, vs). length vs = n) al \<Longrightarrow> length v = n \<Longrightarrow>
     list_all (\<lambda>(name, vs). length vs = n) (AList.update k v al)"
  by (induction al) auto

lemma rectangular_set:
  "rectangular df \<Longrightarrow> length vs = nrows df \<Longrightarrow> rectangular (set_column df name vs)"
  by (simp add: rectangular_def set_column_def rectangular_update)

lemma ensure_provider_column_find:
  "ensure_provider_column df cands suffix =
     set_column df (''provider_'' @ suffix)
       (case find (\<lambda>col. lower col \<in> set (columns df)) cands of
          Some col \<Rightarrow> get_column df (lower col)
        | None \<Rightarrow> replicate (nrows df) NaN)"
  by (induction cands) (simp_all add: Let_def)

lemma provider_column_length:
  "rectangular df \<Longrightarrow>
     length (case find (\<lambda>col. lower col \<in> set (columns df)) cands of
          Some col \<Rightarrow> get_column df (lower col)
        | None \<Rightarrow> replicate (nrows df) NaN) = nrows df"
  by (auto simp add: rectangular_get find_Some_iff split: option.splits)

text \<open>The provider column, key column and amount column of a prepared frame.\<close>

lemma prepare_frame_provider:
  assumes "''provider_'' @ suffix \<noteq> ''key''" and "''provider_'' @ suffix \<noteq> amount_name"
  shows "get_column (prepare_frame r p pm cands suffix key_col amount_col amount_name df)
       (''provider_'' @ suffix)
     = map (replace_cell pm)
        (case find (\<lambda>col. lower col \<in> set (columns df)) cands of
          Some col \<Rightarrow> get_column df (lower col)
        | None \<Rightarrow> replicate (nrows df) NaN)"
  using assms by (simp add: prepare_frame_def Let_def ensure_provider_column_find)

lemma prepare_frame_key:
  assumes "key_col \<noteq> ''provider_'' @ suffix" and "amount_name \<noteq> ''key''"
  shows "get_column (prepare_frame r p pm cands suffix key_col amount_col amount_name df) ''key''
     = normalize_key r (get_column df key_col)"
  using assms by (simp add: prepare_frame_def Let_def ensure_provider_column_find)


text \<open>The frame after the provider column has been chosen and the aliases replaced.\<close>

lemma provider_stage:
  assumes "rectangular df"
  shows "rectangular (set_column (ensure_provider_column df cands suffix) (''provider_'' @ suffix)
           (map (replace_cell pm)
             (get_column (ensure_provider_column df cands suffix) (''provider_'' @ suffix))))"
    and "set (columns (set_column (ensure_provider_column df cands suffix) (''provider_'' @ suffix)
           (map (replace_cell pm)
             (get_column (ensure_provider_column df cands suffix) (''provider_'' @ suffix)))))
         = insert (''provider_'' @ suffix) (set (columns df))"
    and "nrows (set_column (ensure_provider_column df cands suffix) (''provider_'' @ suffix)
           (map (replace_cell pm)
             (get_column (ensure_provider_column df cands suffix) (''provider_'' @ suffix))))
         = nrows df"
proof -
  let ?pcol = "''provider_'' @ suffix"
  let ?df1 = "ensure_provider_column df cands suffix"
  have r1: "rectangular ?df1" and c1: "set (columns ?df1) = insert ?pcol (set (columns df))"
    and n1: "nrows ?df1 = nrows df"
    using assms
    by (simp_all add: ensure_provider_column_find rectangular_set provider_column_length
        columns_set_column)
  have l1: "length (get_column ?df1 ?pcol) = nrows df"
    using r1 c1 n1 rectangular_get [of ?df1 ?pcol] by simp
  show "rectangular (set_column ?df1 ?pcol (map (replace_cell pm) (get_column ?df1 ?pcol)))"
    using r1 n1 l1 by (simp add: rectangular_set)
  show "set (columns (set_column ?df1 ?pcol (map (replace_cell pm) (get_column ?df1 ?pcol))))
      = insert ?pcol (set (columns df))"
    using c1 by (simp add: columns_set_column)
  show "nrows (set_column ?df1 ?pcol (map (replace_cell pm) (get_column ?df1 ?pcol))) = nrows df"
    using n1 by simp
qed

lemma prepare_frame_lengths:
  assumes "rectangular df" and "key_col \<in> set (columns df)" and "amount_col \<in> set (columns df)"
    and "amount_name \<noteq> ''key''"
  shows "length (get_column
           (prepare_frame r p pm cands suffix key_col amount_col amount_name df) ''key'')
         = nrows df"
    and "length (get_column
           (prepare_frame r p pm cands suffix key_col amount_col amount_name df) amount_name)
         = nrows df"
proof -
  let ?pcol = "''provider_'' @ suffix"
  let ?df1 = "ensure_provider_column df cands suffix"
  let ?df2 = "set_column ?df1 ?pcol (map (replace_cell pm) (get_column ?df1 ?pcol))"
  let ?df3 = "set_column ?df2 ''key'' (normalize_key r (get_column ?df2 key_col))"
  note st = provider_stage [OF assms(1), of cands suffix pm]
  have l2: "length (get_column ?df2 key_col) = nrows df"
    using st assms(2) rectangular_get [of ?df2 key_col] by simp
  have r3: "rectangular ?df3"
    and c3: "set (columns ?df3) = insert ''key'' (insert ?pcol (set (columns df)))"
    and n3: "nrows ?df3 = nrows df"
    using st l2 by (simp_all add: rectangular_set columns_set_column normalize_key_def)
  have "length (get_column ?df3 amount_col) = nrows df"
    using r3 c3 n3 assms(3) rectangular_get [of ?df3 amount_col] by simp
  then show "length (get_column
       (prepare_frame r p pm cands suffix key_col amount_col amount_name df) amount_name)
     = nrows df"
    by (simp add: prepare_frame_def Let_def)
  show "length (get_column
       (prepare_frame r p pm cands suffix key_col amount_col amount_name df) ''key'')
     = nrows df"
    using assms(4) l2 by (simp add: prepare_frame_def Let_def normalize_key_def)
qed

lemma map_fst_zip3:
  assumes "length ys = length xs" and "length zs = length xs"
  shows "map (\<lambda>p. f (fst p)) (zip xs (zip ys zs)) = map f xs"
proof -
  have "map fst (zip xs (zip ys zs)) = xs"
    using assms by (simp add: map_fst_zip)
  then have "map f (map fst (zip xs (zip ys zs))) = map f xs"
    by simp
  then show ?thesis by (simp add: comp_def)
qed

lemma map_mid_zip3:
  assumes "length ys = length xs" and "length zs = length xs"
  shows "map (\<lambda>p. f (fst (snd p))) (zip xs (zip ys zs)) = map f ys"
proof -
  have "map snd (zip xs (zip ys zs)) = zip ys zs"
    using assms by (simp add: map_snd_zip)
  then have "map fst (map snd (zip xs (zip ys zs))) = ys"
    using assms by (simp add: map_fst_zip)
  then have "map f (map fst (map snd (zip xs (zip ys zs)))) = map f ys"
    by simp
  then show ?thesis by (simp add: comp_def)
qed

text \<open>
  The rows handed to the merge, column by column: the key of a row is the normalized key
  cell, its provider the aliased cell of the provider column chosen for the table.
\<close>

lemma order_rows_columns:
  assumes "rectangular df" and "key_col \<in> set (columns df)" and "amount_col \<in> set (columns df)"
  shows "key_col \<noteq> ''provider_orders'' \<Longrightarrow>
      map okey (order_rows (prepare_frame r p pm cands ''orders'' key_col amount_col
            ''ExpectedCommissionUSD'' df))
       = map (\<lambda>c. normalize (astype_str r c)) (get_column df key_col)"
    and "map oprovider (order_rows (prepare_frame r p pm cands ''orders'' key_col amount_col
            ''ExpectedCommissionUSD'' df))
       = map (replace_cell pm)
          (case find (\<lambda>col. lower col \<in> set (columns df)) cands of
            Some col \<Rightarrow> get_column df (lower col)
          | None \<Rightarrow> replicate (nrows df) NaN)"
proof -
  let ?df = "prepare_frame r p pm cands ''orders'' key_col amount_col ''ExpectedCommissionUSD'' df"
  have pc: "get_column ?df ''provider_orders'' = map (replace_cell pm)
        (case find (\<lambda>col. lower col \<in> set (columns df)) cands of
          Some col \<Rightarrow> get_column df (lower col)
        | None \<Rightarrow> replicate (nrows df) NaN)"
    using prepare_frame_provider [of "''orders''" "''ExpectedCommissionUSD''" r p pm cands
        key_col amount_col df]
    by simp
  have lp: "length (get_column ?df ''provider_orders'') = nrows df"
    using pc provider_column_length [OF assms(1), of cands] by simp
  have lk: "length (get_column ?df ''key'') = nrows df"
    and la: "length (get_column ?df ''ExpectedCommissionUSD'') = nrows df"
    using assms by (simp_all add: prepare_frame_lengths)
  have keys: "map okey (order_rows ?df) = map text_of (get_column ?df ''key'')"
    unfolding order_rows_def using lk lp la
    by (simp add: comp_def case_prod_unfold map_fst_zip3)
  have "map oprovider (order_rows ?df) = get_column ?df ''provider_orders''"
    unfolding order_rows_def using lk lp la
    by (simp add: comp_def case_prod_unfold map_mid_zip3 [where f = "\<lambda>x. x"])
  then show "map oprovider (order_rows ?df) = map (replace_cell pm)
          (case find (\<lambda>col. lower col \<in> set (columns df)) cands of
            Some col \<Rightarrow> get_column df (lower col)
          | None \<Rightarrow> replicate (nrows df) NaN)"
    by (simp only: pc)
  assume "key_col \<noteq> ''provider_orders''"
  then have "get_column ?df ''key'' = normalize_key r (get_column df key_col)"
    using prepare_frame_key [of key_col "''orders''" "''ExpectedCommissionUSD''"] by simp
  with keys show "map okey (order_rows ?df)
      = map (\<lambda>c. normalize (astype_str r c)) (get_column df key_col)"
    by (simp add: normalize_key_def text_of_def comp_def)
qed

lemma commission_rows_columns:
  assumes "rectangular df" and "key_col \<in> set (columns df)" and "amount_col \<in> set (columns df)"
  shows "key_col \<noteq> ''provider_commissions'' \<Longrightarrow>
      map ckey (commission_rows (prepare_frame r p pm cands ''commissions'' key_col amount_col
            ''BilledCommissionUSD'' df))
       = map (\<lambda>c. normalize (astype_str r c)) (get_column df key_col)"
    and "map cprovider (commission_rows (prepare_frame r p pm cands ''commissions'' key_col
            amount_col ''BilledCommissionUSD'' df))
       = map (replace_cell pm)
          (case find (\<lambda>col. lower col \<in> set (columns df)) cands of
            Some col \<Rightarrow> get_column df (lower col)
          | None \<Rightarrow> replicate (nrows df) NaN)"
proof -
  let ?df = "prepare_frame r p pm cands ''commissions'' key_col amount_col
      ''BilledCommissionUSD'' df"
  have pc: "get_column ?df ''provider_commissions'' = map (replace_cell pm)
        (case find (\<lambda>col. lower col \<in> set (columns df)) cands of
          Some col \<Rightarrow> get_column df (lower col)
        | None \<Rightarrow> replicate (nrows df) NaN)"
    using prepare_frame_provider [of "''commissions''" "''BilledCommissionUSD''" r p pm cands
        key_col amount_col df]
    by simp
  have lp: "length (get_column ?df ''provider_commissions'') = nrows df"
    using pc provider_column_length [OF assms(1), of cands] by simp
  have lk: "length (get_column ?df ''key'') = nrows df"
    and la: "length (get_column ?df ''BilledCommissionUSD'') = nrows df"
    using assms by (simp_all add: prepare_frame_lengths)
  have keys: "map ckey (commission_rows ?df) = map text_of (get_column ?df ''key'')"
    unfolding commission_rows_def using lk lp la
    by (simp add: comp_def case_prod_unfold map_fst_zip3)
  have "map cprovider (commission_rows ?df) = get_column ?df ''provider_commissions''"
    unfolding commission_rows_def using lk lp la
    by (simp add: comp_def case_prod_unfold map_mid_zip3 [where f = "\<lambda>x. x"])
  then show "map cprovider (commission_rows ?df) = map (replace_cell pm)
          (case find (\<lambda>col. lower col \<in> set (columns df)) cands of
            Some col \<Rightarrow> get_column df (lower col)
          | None \<Rightarrow> replicate (nrows df) NaN)"
    by (simp only: pc)
  assume "key_col \<noteq> ''provider_commissions''"
  then have "get_column ?df ''key'' = normalize_key r (get_column df key_col)"
    using prepare_frame_key [of key_col "''commissions''" "''BilledCommissionUSD''"] by simp
  with keys show "map ckey (commission_rows ?df)
      = map (\<lambda>c. normalize (astype_str r c)) (get_column df key_col)"
    by (simp add: normalize_key_def text_of_def comp_def)
qed

lemma replace_cell_simps:
  "replace_cell pm (Text s) = (case pm s of Some v \<Rightarrow> Text v | None \<Rightarrow> Text s)"
  "replace_cell pm (Number x) = Number x"
  "replace_cell pm NaN = NaN"
  by (simp_all add: replace_cell_def)

lemma provider_of_fill_row:
  "Provider (fill_row m) =
     (if m_provider_orders m \<noteq> NaN then m_provider_orders m
      else if m_provider_commissions m \<noteq> NaN then m_provider_commissions m
      else Text ''Unassigned'')"
  by (simp add: fill_row_def Let_def fillna_def combine_first_def)

lemma columns_strip_lower:
  "columns (strip_lower_columns df) = map (\<lambda>name. lower (strip name)) (columns df)"
  by (simp add: columns_def strip_lower_columns_def comp_def case_prod_unfold)

text \<open>
  Claim C6, as the program has it.  The provider column is chosen once for a whole table:
  it is the first candidate, in the configured order and compared in lower case with the
  stripped, lower-cased column labels, that is a column of the table, whether or not a
  given record has a value in it; when no candidate is a column, every record of the table
  has no provider.  On each record the value of that column is replaced by its alias when
  the alias map has one and kept otherwise, and a missing value stays missing.  A joined
  record takes the provider of the order side, else that of the commission side, else
  \<^verbatim>\<open>Unassigned\<close>.
\<close>

theorem provider_resolution:
  "ensure_provider_column df cands suffix =
     set_column df (''provider_'' @ suffix)
       (case find (\<lambda>col. lower col \<in> set (columns df)) cands of
          Some col \<Rightarrow> get_column df (lower col)
        | None \<Rightarrow> replicate (nrows df) NaN)
   \<and> (rectangular df \<and> key_col \<in> set (columns df) \<and> amount_col \<in> set (columns df) \<longrightarrow>
        map oprovider (order_rows (prepare_frame r p pm cands ''orders'' key_col amount_col
            ''ExpectedCommissionUSD'' df))
          = map (replace_cell pm)
              (case find (\<lambda>col. lower col \<in> set (columns df)) cands of
                 Some col \<Rightarrow> get_column df (lower col)
               | None \<Rightarrow> replicate (nrows df) NaN)
        \<and> map cprovider (commission_rows (prepare_frame r p pm cands ''commissions'' key_col
            amount_col ''BilledCommissionUSD'' df))
          = map (replace_cell pm)
              (case find (\<lambda>col. lower col \<in> set (columns df)) cands of
                 Some col \<Rightarrow> get_column df (lower col)
               | None \<Rightarrow> replicate (nrows df) NaN))
   \<and> replace_cell pm (Text s) = (case pm s of Some v \<Rightarrow> Text v | None \<Rightarrow> Text s)
   \<and> replace_cell pm (Number x) = Number x
   \<and> replace_cell pm NaN = NaN
   \<and> Provider (fill_row m) =
       (if m_provider_orders m \<noteq> NaN then m_provider_orders m
        else if m_provider_commissions m \<noteq> NaN then m_provider_commissions m
        else Text ''Unassigned'')
   \<and> columns (strip_lower_columns df) = map (\<lambda>name. lower (strip name)) (columns df)"
  using ensure_provider_column_find [of df cands suffix]
    order_rows_columns(2) [of df key_col amount_col r p pm cands]
    commission_rows_columns(2) [of df key_col amount_col r p pm cands]
    provider_of_fill_row [of m] columns_strip_lower [of df]
  by (simp only: replace_cell_simps) blast

lemma sample_orders_frame:
  "rectangular (strip_lower_columns (parse sample_workbook ''Orders''))"
  "''locator'' \<in> set (columns (strip_lower_columns (parse sample_workbook ''Orders'')))"
  "''expected'' \<in> set (columns (strip_lower_columns (parse sample_workbook ''Orders'')))"
  "map (replace_cell Map.empty)
     (case find (\<lambda>col. lower col
           \<in> set (columns (strip_lower_columns (parse sample_workbook ''Orders''))))
         [''provider'', ''supplier'', ''operator''] of
        Some col \<Rightarrow> get_column (strip_lower_columns (parse sample_workbook ''Orders'')) (lower col)
      | None \<Rightarrow> replicate (nrows (strip_lower_columns (parse sample_workbook ''Orders''))) NaN)
   = [NaN]"
  by code_simp+

theorem provider_resolution_witness:
  "map oprovider (order_rows (prepare_frame no_repr no_parse Map.empty
       [''provider'', ''supplier'', ''operator''] ''orders'' ''locator'' ''expected''
       ''ExpectedCommissionUSD'' (strip_lower_columns (parse sample_workbook ''Orders''))))
   = [NaN]"
proof -
  note inst = provider_resolution
    [of "strip_lower_columns (parse sample_workbook ''Orders'')"
        "[''provider'', ''supplier'', ''operator'']" "''orders''" "''locator''" "''expected''"
        no_repr no_parse Map.empty,
     THEN conjunct2, THEN conjunct1, rule_format, THEN conjunct1]
  have "map oprovider (order_rows (prepare_frame no_repr no_parse Map.empty
       [''provider'', ''supplier'', ''operator''] ''orders'' ''locator'' ''expected''
       ''ExpectedCommissionUSD'' (strip_lower_columns (parse sample_workbook ''Orders''))))
     = map (replace_cell Map.empty)
     (case find (\<lambda>col. lower col
           \<in> set (columns (strip_lower_columns (parse sample_workbook ''Orders''))))
         [''provider'', ''supplier'', ''operator''] of
        Some col \<Rightarrow> get_column (strip_lower_columns (parse sample_workbook ''Orders'')) (lower col)
      | None \<Rightarrow> replicate (nrows (strip_lower_columns (parse sample_workbook ''Orders''))) NaN)"
    by (rule inst) (simp only: sample_orders_frame simp_thms)
  then show ?thesis
    by (simp only: sample_orders_frame(4))
qed

text \<open>
  The order row of the sample workbook has nothing under \<^verbatim>\<open>Provider\<close> and Acme under
  \<^verbatim>\<open>Supplier\<close>; both are candidate columns.  The run takes the column \<^verbatim>\<open>provider\<close> for
  the whole table, so the record has no order-side provider and ends as
  \<^verbatim>\<open>Unassigned\<close>, not as Acme.
\<close>

theorem provider_resolution_counterexample:
  "get_column (ensure_provider_column (strip_lower_columns (parse sample_workbook ''Orders''))
       [''provider'', ''supplier'', ''operator''] ''orders'') ''supplier'' = [Text ''Acme'']
   \<and> get_column (ensure_provider_column (strip_lower_columns (parse sample_workbook ''Orders''))
       [''provider'', ''supplier'', ''operator''] ''orders'') ''provider_orders'' = [NaN]
   \<and> map_sum id (\<lambda>out. map Provider (matches out))
       (main no_repr no_parse (sample_config None) sample_workbook Map.empty)
     = Inr [Text ''Unassigned'']"
  by code_simp

section \<open>The tolerance\<close>









section \<open>Missing locators\<close>

lemma joined_records_set:
  "set (joined_records os cs)
     = {fill_row (both_row ord com) | ord com.
          ord \<in> set os \<and> com \<in> set cs \<and> ckey com = okey ord}
       \<union> {fill_row (left_row ord) | ord. ord \<in> set os \<and> okey ord \<notin> set (map ckey cs)}
       \<union> {fill_row (right_row com) | com. com \<in> set cs \<and> ckey com \<notin> set (map okey os)}"
proof -
  have "set (joined_records os cs)
     = set (map (\<lambda>(ord, com). fill_row (both_row ord com))
         (filter (\<lambda>(ord, com). ckey com = okey ord) (List.product os cs))
       @ map (\<lambda>ord. fill_row (left_row ord))
           (filter (\<lambda>ord. okey ord \<notin> set (map ckey cs)) os)
       @ map (\<lambda>com. fill_row (right_row com))
           (filter (\<lambda>com. ckey com \<notin> set (map okey os)) cs))"
    by (rule mset_eq_setD) (simp add: joined_records_mset)
  also have "\<dots> = {fill_row (both_row ord com) | ord com.
          ord \<in> set os \<and> com \<in> set cs \<and> ckey com = okey ord}
       \<union> {fill_row (left_row ord) | ord. ord \<in> set os \<and> okey ord \<notin> set (map ckey cs)}
       \<union> {fill_row (right_row com) | com. com \<in> set cs \<and> ckey com \<notin> set (map okey os)}"
    by (auto simp add: image_iff)
  finally show ?thesis .
qed

lemma shared_key_is_joined:
  assumes "r \<in> set (joined_records os cs)"
    and "key r \<in> set (map okey os)" and "key r \<in> set (map ckey cs)"
  shows "merge_ind r = Both"
  using assms unfolding joined_records_set
  by (fastforce simp add: fill_row_simps)

lemma pair_is_joined:
  assumes "ord \<in> set os" and "com \<in> set cs" and "ckey com = okey ord"
  shows "fill_row (both_row ord com) \<in> set (joined_records os cs)"
proof -
  have "fill_row (both_row ord com) \<in> {fill_row (both_row ord com) | ord com.
          ord \<in> set os \<and> com \<in> set cs \<and> ckey com = okey ord}"
    using assms by blast
  then show ?thesis
    unfolding joined_records_set by (intro UnI1)
qed

lemma missing_locator_rows:
  "prepare no_repr no_parse (sample_config None) missing_locator_workbook Map.empty
     = Inr ([\<lparr>okey = ''NAN'', oprovider = NaN, oexpected = 40\<rparr>],
            [\<lparr>ckey = ''NAN'', cprovider = NaN, cbilled = 15\<rparr>])"
  by code_simp

text \<open>
  Claim C9.  A missing key cell is normalized to the text NAN.  So, in a table the run
  prepares, a row whose key cell is missing gets the join key NAN; and whenever an order
  row and a commission row both have the key NAN, each such pair is joined into a record
  present on both sides, and no joined record with the key NAN is left on one side only.
\<close>

theorem missing_key_becomes_nan:
  "(i < length series \<and> series ! i = NaN \<longrightarrow>
      normalize_key repr_num series ! i = Text ''NAN'')
   \<and> (rectangular df \<and> key_col \<in> set (columns df) \<and> amount_col \<in> set (columns df)
       \<and> i < nrows df \<and> get_column df key_col ! i = NaN \<longrightarrow>
        (key_col \<noteq> ''provider_orders'' \<longrightarrow>
           okey (order_rows (prepare_frame repr_num parse_num pm cands ''orders'' key_col
             amount_col ''ExpectedCommissionUSD'' df) ! i) = ''NAN'')
        \<and> (key_col \<noteq> ''provider_commissions'' \<longrightarrow>
           ckey (commission_rows (prepare_frame repr_num parse_num pm cands ''commissions''
             key_col amount_col ''BilledCommissionUSD'' df) ! i) = ''NAN''))
   \<and> (ord \<in> set os \<and> com \<in> set cs \<and> okey ord = ''NAN'' \<and> ckey com = ''NAN'' \<longrightarrow>
        fill_row (both_row ord com) \<in> set (joined_records os cs)
        \<and> (\<forall>r \<in> set (joined_records os cs). key r = ''NAN'' \<longrightarrow> merge_ind r = Both))"
proof -
  have nan: "normalize (astype_str repr_num NaN) = ''NAN''"
    unfolding astype_str_def cell.case by code_simp
  have a: "normalize_key repr_num series ! i = Text ''NAN''"
    if "i < length series" and "series ! i = NaN"
    using that by (simp add: normalize_key_def nan)
  have b: "okey (order_rows (prepare_frame repr_num parse_num pm cands ''orders'' key_col
             amount_col ''ExpectedCommissionUSD'' df) ! i) = ''NAN''"
    if "rectangular df" and "key_col \<in> set (columns df)" and "amount_col \<in> set (columns df)"
      and "i < nrows df" and "get_column df key_col ! i = NaN"
      and "key_col \<noteq> ''provider_orders''"
  proof -
    have len: "length (get_column df key_col) = nrows df"
      using that by (simp add: rectangular_get)
    have "map okey (order_rows (prepare_frame repr_num parse_num pm cands ''orders'' key_col
             amount_col ''ExpectedCommissionUSD'' df)) ! i
        = map (\<lambda>c. normalize (astype_str repr_num c)) (get_column df key_col) ! i"
      by (simp only: order_rows_columns(1) [OF that(1) that(2) that(3) that(6)])
    moreover have "i < length (order_rows (prepare_frame repr_num parse_num pm cands ''orders''
        key_col amount_col ''ExpectedCommissionUSD'' df))"
      using order_rows_columns(1) [OF that(1-3) that(6), of repr_num parse_num pm cands,
          THEN arg_cong, of length] len that(4)
      by simp
    ultimately show ?thesis
      using that len by (simp add: nan)
  qed
  have c: "ckey (commission_rows (prepare_frame repr_num parse_num pm cands ''commissions''
             key_col amount_col ''BilledCommissionUSD'' df) ! i) = ''NAN''"
    if "rectangular df" and "key_col \<in> set (columns df)" and "amount_col \<in> set (columns df)"
      and "i < nrows df" and "get_column df key_col ! i = NaN"
      and "key_col \<noteq> ''provider_commissions''"
  proof -
    have len: "length (get_column df key_col) = nrows df"
      using that by (simp add: rectangular_get)
    have "map ckey (commission_rows (prepare_frame repr_num parse_num pm cands ''commissions''
             key_col amount_col ''BilledCommissionUSD'' df)) ! i
        = map (\<lambda>c. normalize (astype_str repr_num c)) (get_column df key_col) ! i"
      by (simp only: commission_rows_columns(1) [OF that(1) that(2) that(3) that(6)])
    moreover have "i < length (commission_rows (prepare_frame repr_num parse_num pm cands
        ''commissions'' key_col amount_col ''BilledCommissionUSD'' df))"
      using commission_rows_columns(1) [OF that(1-3) that(6), of repr_num parse_num pm cands,
          THEN arg_cong, of length] len that(4)
      by simp
    ultimately show ?thesis
      using that len by (simp add: nan)
  qed
  have d: "fill_row (both_row ord com) \<in> set (joined_records os cs)"
    if "ord \<in> set os" and "com \<in> set cs" and "okey ord = ''NAN''" and "ckey com = ''NAN''"
    using that by (simp add: pair_is_joined)
  have e: "merge_ind x = Both"
    if "ord \<in> set os" and "com \<in> set cs" and "okey ord = ''NAN''" and "ckey com = ''NAN''"
      and "x \<in> set (joined_records os cs)" and "key x = ''NAN''" for x
  proof (rule shared_key_is_joined [OF that(5)])
    show "key x \<in> set (map okey os)" using that by force
    show "key x \<in> set (map ckey cs)" using that by force
  qed
  from a b c d e show ?thesis by blast
qed

lemma missing_locator_frame:
  "rectangular (strip_lower_columns (parse missing_locator_workbook ''Orders''))"
  "''locator'' \<in> set (columns (strip_lower_columns (parse missing_locator_workbook ''Orders'')))"
  "''expected'' \<in> set (columns (strip_lower_columns (parse missing_locator_workbook ''Orders'')))"
  "0 < nrows (strip_lower_columns (parse missing_locator_workbook ''Orders''))"
  "get_column (strip_lower_columns (parse missing_locator_workbook ''Orders'')) ''locator'' ! 0
     = NaN"
  by code_simp+

theorem missing_key_becomes_nan_witness:
  "normalize_key no_repr [NaN] ! 0 = Text ''NAN''
   \<and> okey (order_rows (prepare_frame no_repr no_parse Map.empty
         [''provider'', ''supplier'', ''operator''] ''orders'' ''locator'' ''expected''
         ''ExpectedCommissionUSD''
         (strip_lower_columns (parse missing_locator_workbook ''Orders''))) ! 0) = ''NAN''
   \<and> prepare no_repr no_parse (sample_config None) missing_locator_workbook Map.empty
     = Inr ([\<lparr>okey = ''NAN'', oprovider = NaN, oexpected = 40\<rparr>],
            [\<lparr>ckey = ''NAN'', cprovider = NaN, cbilled = 15\<rparr>])
   \<and> fill_row (both_row \<lparr>okey = ''NAN'', oprovider = NaN, oexpected = 40\<rparr>
        \<lparr>ckey = ''NAN'', cprovider = NaN, cbilled = 15\<rparr>)
     \<in> set (joined_records [\<lparr>okey = ''NAN'', oprovider = NaN, oexpected = 40\<rparr>]
          [\<lparr>ckey = ''NAN'', cprovider = NaN, cbilled = 15\<rparr>])"
  using missing_key_becomes_nan
    [where i = 0 and series = "[NaN]" and repr_num = no_repr and parse_num = no_parse
       and pm = Map.empty and cands = "[''provider'', ''supplier'', ''operator'']"
       and df = "strip_lower_columns (parse missing_locator_workbook ''Orders'')"
       and key_col = "''locator''" and amount_col = "''expected''"
       and ord = "\<lparr>okey = ''NAN'', oprovider = NaN, oexpected = 40\<rparr>"
       and os = "[\<lparr>okey = ''NAN'', oprovider = NaN, oexpected = 40\<rparr>]"
       and com = "\<lparr>ckey = ''NAN'', cprovider = NaN, cbilled = 15\<rparr>"
       and cs = "[\<lparr>ckey = ''NAN'', cprovider = NaN, cbilled = 15\<rparr>]"]
  by (simp add: missing_locator_frame missing_locator_rows)


section \<open>Consolidation of the commission export\<close>









end
